theory Spec2Isabelle
  imports Main "HOL-Library.Monad_Syntax"
begin

section \<open>The optirun client of Bumblebee (src/optirun.c)\<close>

text \<open>
  The program is the function \<open>main\<close> of optirun.c. It parses its options with getopt(3),
  connects to the Bumblebee daemon over a Unix socket, sends one request and acts on the
  first non-empty reply: it shows the status, or it runs the application given on the
  command line, directly or through vglrun.

  The embedding is a function from the command line and from what the outside world
  answers (the record \<open>world\<close>) to the way the process ends (\<open>outcome\<close>) and to the list
  of calls it made to its collaborators, in order (\<open>event list\<close>). C strings are HOL
  strings without the terminating NUL; an argument vector is the list of its strings
  without the terminating null pointer.
\<close>

subsection \<open>Data\<close>

text \<open>The verbosity levels and run modes of bbconfig.h that optirun.c uses.\<close>

datatype verbosity_level = VERB_NONE | VERB_WARN | VERB_INFO | VERB_DEBUG

datatype bb_run_mode = BB_RUN_APP | BB_RUN_STATUS

record bb_status_struct =
  program_name :: "string option"
  is_daemonized :: int
  verbosity :: verbosity_level
  errors :: string
  runmode :: bb_run_mode
  bb_socket :: int

record bb_config_struct =
  x_display :: string
  ld_path :: string
  socket_path :: string
  vgl_compress :: string

definition EXIT_SUCCESS :: int where
  "EXIT_SUCCESS = 0"

definition EXIT_FAILURE :: int where
  "EXIT_FAILURE = 1"

subsection \<open>getopt(3)\<close>

text \<open>
  getopt is the C library's. This is its behaviour for an option string that starts with
  \<open>+\<close> (scanning stops at the first non-option, the argument vector is never permuted)
  and has no \<open>W;\<close>. \<open>optind\<close> and \<open>optarg\<close> are its global variables, \<open>nextchar\<close> is
  its private pointer into the element being scanned (empty: no element is being
  scanned). The result \<open>None\<close> is the return value -1.
\<close>

record getopt_state =
  optind :: nat
  nextchar :: string
  optarg :: "string option"

definition is_option_element :: "string \<Rightarrow> bool" where
  "is_option_element a = (case a of c # _ # _ \<Rightarrow> c = CHR ''-'' | _ \<Rightarrow> False)"

definition getopt_required ::
  "string list \<Rightarrow> getopt_state \<Rightarrow> char \<Rightarrow> string \<Rightarrow> nat \<Rightarrow> char option \<times> getopt_state" where
  "getopt_required argv s c rest ind =
     (if rest \<noteq> []
        then (Some c, s\<lparr>optind := ind + 1, nextchar := [], optarg := Some rest\<rparr>)
      else if length argv \<le> ind
        then (Some (CHR ''?''), s\<lparr>optind := ind, nextchar := []\<rparr>)
      else (Some c, s\<lparr>optind := ind + 1, nextchar := [], optarg := Some (argv ! ind)\<rparr>))"

definition getopt :: "string list \<Rightarrow> string \<Rightarrow> getopt_state \<Rightarrow> char option \<times> getopt_state" where
  "getopt argv optstring s =
     (let argc = length argv;
          opts = (case optstring of c # cs \<Rightarrow> if c = CHR ''+'' then cs else optstring | [] \<Rightarrow> []);
          s = s\<lparr>optarg := None\<rparr>
      in if nextchar s = [] \<and> argc \<le> optind s then (None, s)
         else if nextchar s = [] \<and> argv ! optind s = ''--''
           then (None, s\<lparr>optind := optind s + 1\<rparr>)
         else if nextchar s = [] \<and> \<not> is_option_element (argv ! optind s) then (None, s)
         else
           let cluster = (if nextchar s = [] then tl (argv ! optind s) else nextchar s);
               c = hd cluster;
               rest = tl cluster;
               temp = dropWhile (\<lambda>x. x \<noteq> c) opts;
               ind = (if rest = [] then optind s + 1 else optind s)
           in if temp = [] \<or> c = CHR '':'' \<or> c = CHR '';''
                then (Some (CHR ''?''), s\<lparr>optind := ind, nextchar := rest\<rparr>)
              else
                (case tl temp of
                   c1 # t1 \<Rightarrow>
                     if c1 = CHR '':'' then
                       (case t1 of
                          c2 # _ \<Rightarrow>
                            if c2 = CHR '':'' then
                              (if rest \<noteq> []
                               then (Some c, s\<lparr>optind := ind + 1, nextchar := [], optarg := Some rest\<rparr>)
                               else (Some c, s\<lparr>optind := ind, nextchar := []\<rparr>))
                            else getopt_required argv s c rest ind
                        | [] \<Rightarrow> getopt_required argv s c rest ind)
                     else (Some c, s\<lparr>optind := ind, nextchar := rest\<rparr>)
                 | [] \<Rightarrow> (Some c, s\<lparr>optind := ind, nextchar := rest\<rparr>)))"

subsection \<open>Option parsing (lines 98--133)\<close>

text \<open>
  \<open>BUFFER_SIZE\<close> is a macro of bbconfig.h; it is a parameter here.
  \<open>snprintf(dst, n, "%s", src)\<close> stores at most \<open>n - 1\<close> characters of \<open>src\<close>.
\<close>

definition snprintf_s :: "string \<Rightarrow> nat \<Rightarrow> string \<Rightarrow> string" where
  "snprintf_s dst n src = (if n = 0 then dst else take (n - 1) src)"

text \<open>
  \<open>optarg\<close> as main reads it. getopt returns an option that takes an argument only
  with \<open>optarg\<close> set; a null \<open>optarg\<close> is read as the empty string.
\<close>

definition optarg_string :: "getopt_state \<Rightarrow> string" where
  "optarg_string g = (case optarg g of Some a \<Rightarrow> a | None \<Rightarrow> [])"

definition optstring :: string where
  "optstring = ''+cvVm:X:l:u:h|help''"

datatype parsed =
    Usage_exit int
  | Parsed bb_status_struct bb_config_struct nat

definition getopt_measure :: "string list \<Rightarrow> getopt_state \<Rightarrow> nat" where
  "getopt_measure argv g =
     (if nextchar g = [] then sum_list (map (\<lambda>a. Suc (length a)) (drop (optind g) argv))
      else length (nextchar g) + sum_list (map (\<lambda>a. Suc (length a)) (drop (optind g + 1) argv)))"

lemma sum_drop_step:
  "k < length argv \<Longrightarrow>
   sum_list (map (\<lambda>a. Suc (length a)) (drop k argv)) =
   Suc (length (argv ! k)) + sum_list (map (\<lambda>a. Suc (length a)) (drop (Suc k) argv))"
  by (simp add: Cons_nth_drop_Suc [symmetric])

lemma sum_drop_mono:
  "sum_list (map (\<lambda>a. Suc (length a)) (drop (Suc k) argv)) \<le>
   sum_list (map (\<lambda>a. Suc (length a)) (drop k argv))"
proof (cases "k < length argv")
  case True
  then show ?thesis by (simp add: sum_drop_step)
next
  case False
  then show ?thesis by simp
qed

lemma is_option_element_length: "is_option_element a \<Longrightarrow> 2 \<le> length a"
  by (auto simp: is_option_element_def split: list.splits)

lemma getopt_measure_decreases:
  assumes "getopt argv os g = (Some c, g')"
  shows "getopt_measure argv g' < getopt_measure argv g"
proof (cases "nextchar g = []")
  case True
  with assms have lt: "optind g < length argv" and opt: "is_option_element (argv ! optind g)"
    by (auto simp: getopt_def Let_def split: if_splits)
  from opt have len: "2 \<le> length (argv ! optind g)" by (rule is_option_element_length)
  have m: "getopt_measure argv g = Suc (length (argv ! optind g)) +
      sum_list (map (\<lambda>a. Suc (length a)) (drop (Suc (optind g)) argv))"
    using True lt by (simp add: getopt_measure_def sum_drop_step)
  have mono: "sum_list (map (\<lambda>a. Suc (length a)) (drop (Suc (Suc (optind g))) argv)) \<le>
      sum_list (map (\<lambda>a. Suc (length a)) (drop (Suc (optind g)) argv))"
    by (rule sum_drop_mono)
  from assms True lt opt len mono show ?thesis
    unfolding m
    by (auto simp: getopt_def getopt_required_def Let_def getopt_measure_def
        split: if_splits list.splits)
next
  case False
  have mono: "sum_list (map (\<lambda>a. Suc (length a)) (drop (Suc (Suc (optind g))) argv)) \<le>
      sum_list (map (\<lambda>a. Suc (length a)) (drop (Suc (optind g)) argv))"
    by (rule sum_drop_mono)
  from False have pos: "0 < length (nextchar g)" by simp
  have a: "sum_list (map (\<lambda>a. Suc (length a)) (drop (Suc (Suc (optind g))) argv)) <
      length (nextchar g) + sum_list (map (\<lambda>a. Suc (length a)) (drop (Suc (optind g)) argv))"
    using mono pos by linarith
  have b: "sum_list (map (\<lambda>a. Suc (length a)) (drop (Suc (optind g)) argv)) <
      length (nextchar g) + sum_list (map (\<lambda>a. Suc (length a)) (drop (Suc (optind g)) argv))"
    using pos by linarith
  from assms False show ?thesis
    by (auto simp: getopt_def getopt_required_def Let_def getopt_measure_def a b
        split: if_splits list.splits)
qed

function parse_options ::
  "nat \<Rightarrow> string list \<Rightarrow> bb_status_struct \<Rightarrow> bb_config_struct \<Rightarrow> getopt_state \<Rightarrow> parsed" where
  "parse_options bufsz argv st cfg g =
     (case getopt argv optstring g of
        (None, g') \<Rightarrow> Parsed st cfg (optind g')
      | (Some c, g') \<Rightarrow>
          if c = CHR ''h'' then Usage_exit EXIT_SUCCESS
          else if c = CHR ''q'' then
            parse_options bufsz argv (st\<lparr>verbosity := VERB_NONE\<rparr>) cfg g'
          else if c = CHR ''v'' then
            (if verbosity st = VERB_INFO
             then parse_options bufsz argv (st\<lparr>verbosity := VERB_DEBUG\<rparr>) cfg g'
             else parse_options bufsz argv (st\<lparr>verbosity := VERB_INFO\<rparr>) cfg g')
          else if c = CHR ''X'' then
            parse_options bufsz argv st
              (cfg\<lparr>x_display := snprintf_s (x_display cfg) bufsz (optarg_string g')\<rparr>) g'
          else if c = CHR ''l'' then
            parse_options bufsz argv st
              (cfg\<lparr>ld_path := snprintf_s (ld_path cfg) bufsz (optarg_string g')\<rparr>) g'
          else if c = CHR ''u'' then
            parse_options bufsz argv st
              (cfg\<lparr>socket_path := snprintf_s (socket_path cfg) bufsz (optarg_string g')\<rparr>) g'
          else if c = CHR ''m'' then
            parse_options bufsz argv st
              (cfg\<lparr>vgl_compress := snprintf_s (vgl_compress cfg) bufsz (optarg_string g')\<rparr>) g'
          else Usage_exit EXIT_FAILURE)"
  by pat_completeness auto
termination
  by (relation "measure (\<lambda>(bufsz, argv, st, cfg, g). getopt_measure argv g)")
     (auto dest: getopt_measure_decreases [OF sym])

declare parse_options.simps [simp del]

subsection \<open>The outside world and the calls made to it\<close>

text \<open>
  The collaborators of optirun.c (bbsocket.c, bbrun.c, bblogger.c, bbconfig.c) are not
  part of the sources at hand. A call to one of them is recorded as an \<open>event\<close>, with the
  arguments main passes; what the call gives back to main is read from the record
  \<open>world\<close>. Signals are delivered asynchronously and are not part of this sequential
  model; \<open>malloc\<close> is taken to succeed.
\<close>

datatype log_priority = LOG_DEBUG | LOG_INFO | LOG_WARNING | LOG_ERR

text \<open>
  The arguments of a printf-style call: an int, a string pointer (null when there is no
  \<open>argv[0]\<close>), the character array \<open>buffer\<close> with its content at the time of the call,
  and the macro \<open>GITVERSION\<close> of config.h.
\<close>

datatype printf_arg = PInt int | PStr "string option" | PBuf string | GITVERSION

datatype event =
    Print_usage int
  | Fprintf_stderr string
  | Printf string "printf_arg list"
  | Bb_log log_priority string "printf_arg list"
  | SocketConnect string
  | SocketWrite string
  | SocketRead int
  | SocketClose
  | Bb_run_fork "string list"
  | Bb_run_fork_wait "string list"
  | Bb_closelog
  | Bb_stop_all

text \<open>
  What one call of \<open>socketRead\<close> finds: some bytes (none when nothing has arrived yet;
  the socket stays open), or the end of the connection (closed by the daemon, by an
  error, or by the signal handler in the meantime).
\<close>

datatype read_result = Received string | Disconnected

text \<open>
  The world of one run: the value of the macro \<open>BUFFER_SIZE\<close>; the global \<open>bb_status\<close>
  when main starts; the global \<open>bb_config\<close> as \<open>read_configuration()\<close> leaves it; the
  return value of \<open>bb_init_log()\<close>; the handle \<open>socketConnect\<close> returns for a path;
  whether the one \<open>socketWrite\<close> of the run fails; what the successive calls of
  \<open>socketRead\<close> find; and the content of the array \<open>buffer\<close>, which main does not
  initialise.
\<close>

record world =
  BUFFER_SIZE :: nat
  bb_status0 :: bb_status_struct
  read_configuration :: bb_config_struct
  bb_init_log :: int
  socketConnect_result :: "string \<Rightarrow> int"
  socketWrite_fails :: bool
  socketRead_results :: "read_result list"
  buffer0 :: string

text \<open>
  How a run ends: \<open>exit\<close> or a return from main with a status; control handed to
  \<open>bb_run_exec\<close> with an argument vector, which does not return; a store outside the
  allocated argument vector; or, when the list of read results is used up while the
  socket is still open, the process is still waiting in its read loop.
\<close>

datatype outcome =
    Exited int
  | Exec "string list"
  | Memory_fault
  | Waiting

text \<open>The variables of main and the globals it works on, with the calls made so far.\<close>

record machine =
  bb_status :: bb_status_struct
  bb_config :: bb_config_struct
  buffer :: string
  trace :: "event list"

datatype flow =
    Running machine "read_result list"
  | Finished outcome "event list"

definition emit :: "event \<Rightarrow> machine \<Rightarrow> machine" where
  "emit e m = m\<lparr>trace := trace m @ [e]\<rparr>"

definition bb_log :: "log_priority \<Rightarrow> string \<Rightarrow> printf_arg list \<Rightarrow> machine \<Rightarrow> machine" where
  "bb_log p fmt args m = emit (Bb_log p fmt args) m"

definition set_socket :: "int \<Rightarrow> machine \<Rightarrow> machine" where
  "set_socket fd m = m\<lparr>bb_status := (bb_status m)\<lparr>bb_socket := fd\<rparr>\<rparr>"

text \<open>
  Modelled from the spec: the functions of bbsocket.c, which are not part of the sources.
  The spec gives a connection the states Disconnected, Connected and Closed, moving
  forward only; the handle of a closed connection is -1, the value main's loops test.
  \<open>socketConnect\<close> returns the handle, negative on failure. \<open>socketWrite\<close> sends the
  first \<open>r\<close> bytes of the buffer; a failed write is the peer having disappeared (the
  connection is closed). \<open>socketRead\<close> stores the bytes received at the start of the
  buffer and returns their number, or closes the connection at its end and returns 0.
  \<open>socketClose\<close> closes the connection.
\<close>

definition socketConnect :: "world \<Rightarrow> machine \<Rightarrow> machine" where
  "socketConnect w m =
     (let path = socket_path (bb_config m)
      in set_socket (socketConnect_result w path) (emit (SocketConnect path) m))"

definition socketWrite :: "world \<Rightarrow> int \<Rightarrow> machine \<Rightarrow> machine" where
  "socketWrite w r m =
     (let m = emit (SocketWrite (take (nat r) (buffer m))) m
      in if socketWrite_fails w then set_socket (- 1) m else m)"

definition overwrite :: "string \<Rightarrow> string \<Rightarrow> string" where
  "overwrite bytes buf = bytes @ drop (length bytes) buf"

definition socketRead :: "read_result \<Rightarrow> machine \<Rightarrow> int \<times> machine" where
  "socketRead x m =
     (case x of
        Received bytes \<Rightarrow>
          (int (length bytes),
           emit (SocketRead (int (length bytes))) (m\<lparr>buffer := overwrite bytes (buffer m)\<rparr>))
      | Disconnected \<Rightarrow> (0, set_socket (- 1) (emit (SocketRead 0) m)))"

definition socketClose :: "machine \<Rightarrow> machine" where
  "socketClose m = set_socket (- 1) (emit SocketClose m)"

text \<open>
  \<open>snprintf(buffer, n, literal)\<close>: stores at most \<open>n - 1\<close> characters and a NUL at the
  start of the buffer, and returns the length of the literal.
\<close>

definition snprintf_buffer :: "string \<Rightarrow> nat \<Rightarrow> string \<Rightarrow> int \<times> string" where
  "snprintf_buffer buf n lit =
     (int (length lit),
      if n = 0 then buf else overwrite (take (n - 1) lit @ [CHR 0x00]) buf)"

text \<open>
  \<open>strncmp\<close> on two C strings: the first \<open>n\<close> characters are compared, the end of a
  string being its NUL. Only the sign of the result is specified.
\<close>

fun strncmp :: "string \<Rightarrow> string \<Rightarrow> nat \<Rightarrow> int" where
  "strncmp a b 0 = 0"
| "strncmp [] [] (Suc n) = 0"
| "strncmp [] (y # ys) (Suc n) = - 1"
| "strncmp (x # xs) [] (Suc n) = 1"
| "strncmp (x # xs) (y # ys) (Suc n) =
     (if x = y then strncmp xs ys n
      else if (of_char x :: nat) < of_char y then - 1 else 1)"

subsection \<open>The argument vector of vglrun (lines 197--209)\<close>

text \<open>
  The vector is an array of \<open>char *\<close>. \<open>malloc\<close> gives uninitialised slots; a store
  outside the array is an error (\<open>None\<close>).
\<close>

datatype pointer = Uninitialised | Null | Str string

definition malloc :: "nat \<Rightarrow> pointer list" where
  "malloc n = replicate n Uninitialised"

definition store :: "pointer list \<Rightarrow> nat \<Rightarrow> pointer \<Rightarrow> pointer list option" where
  "store a i p = (if i < length a then Some (a[i := p]) else None)"

function copy_args ::
  "string list \<Rightarrow> nat \<Rightarrow> nat \<Rightarrow> pointer list \<Rightarrow> (nat \<times> pointer list) option" where
  "copy_args argv oi r a =
     (if r < length argv - oi
      then (case store a (8 + r) (Str (argv ! (oi + r))) of
              None \<Rightarrow> None
            | Some a' \<Rightarrow> copy_args argv oi (r + 1) a')
      else Some (r, a))"
  by pat_completeness auto
termination
  by (relation "measure (\<lambda>(argv, oi, r, a). length argv - oi - r)") auto

declare copy_args.simps [simp del]

definition build_vglrun_args :: "bb_config_struct \<Rightarrow> string list \<Rightarrow> nat \<Rightarrow> pointer list option" where
  "build_vglrun_args cfg argv oi =
     do {
       a \<leftarrow> Some (malloc (9 + length argv - oi));
       a \<leftarrow> store a 0 (Str ''vglrun'');
       a \<leftarrow> store a 1 (Str ''-c'');
       a \<leftarrow> store a 2 (Str (vgl_compress cfg));
       a \<leftarrow> store a 3 (Str ''-d'');
       a \<leftarrow> store a 4 (Str (x_display cfg));
       a \<leftarrow> store a 5 (Str ''-ld'');
       a \<leftarrow> store a 6 (Str (ld_path cfg));
       a \<leftarrow> store a 7 (Str ''--'');
       (r, a) \<leftarrow> copy_args argv oi 0 a;
       store a (8 + r) Null
     }"

text \<open>
  The argument vector a callee reads from such an array: the strings up to the first
  null pointer. Reading an uninitialised slot or past the end is an error.
\<close>

fun c_argv :: "pointer list \<Rightarrow> string list option" where
  "c_argv [] = None"
| "c_argv (Null # ps) = Some []"
| "c_argv (Uninitialised # ps) = None"
| "c_argv (Str s # ps) = map_option ((#) s) (c_argv ps)"

subsection \<open>The two protocol exchanges (lines 159--220)\<close>

text \<open>
  Modelled from the spec: the functions of bbrun.c and bblogger.c, which are not part of
  the sources. \<open>bb_run_fork\<close> starts a process and returns at once, \<open>bb_run_fork_wait\<close>
  starts one and returns when it has exited, \<open>bb_run_exec\<close> replaces the current
  process and does not return (the outcome \<open>Exec\<close>); \<open>bb_closelog\<close> and \<open>bb_stop_all\<close>
  return nothing to main.
\<close>

definition bb_run_fork :: "string list \<Rightarrow> machine \<Rightarrow> machine" where
  "bb_run_fork args m = emit (Bb_run_fork args) m"

definition bb_run_fork_wait :: "string list \<Rightarrow> machine \<Rightarrow> machine" where
  "bb_run_fork_wait args m = emit (Bb_run_fork_wait args) m"

definition bb_closelog :: "machine \<Rightarrow> machine" where
  "bb_closelog m = emit Bb_closelog m"

definition bb_stop_all :: "machine \<Rightarrow> machine" where
  "bb_stop_all m = emit Bb_stop_all m"

text \<open>The loop of the status request (lines 163--169).\<close>

fun status_loop :: "machine \<Rightarrow> read_result list \<Rightarrow> flow" where
  "status_loop m [] =
     (if bb_socket (bb_status m) \<noteq> - 1 then Finished Waiting (trace m) else Running m [])"
| "status_loop m (x # xs) =
     (if bb_socket (bb_status m) \<noteq> - 1 then
        (case socketRead x m of
           (r, m) \<Rightarrow>
             if 0 < r then
               (let m = emit (Printf ''Bumblebee status: %*s\<newline>'' [PInt r, PBuf (buffer m)]) m
                in status_loop (socketClose m) xs)
             else status_loop m xs)
      else Running m (x # xs))"

definition request_status :: "world \<Rightarrow> machine \<Rightarrow> read_result list \<Rightarrow> flow" where
  "request_status w m reads =
     (if runmode (bb_status m) = BB_RUN_STATUS then
        (case snprintf_buffer (buffer m) (BUFFER_SIZE w) ''Status?'' of
           (r, b) \<Rightarrow> status_loop (socketWrite w r (m\<lparr>buffer := b\<rparr>)) reads)
      else Running m reads)"

text \<open>
  The case \<open>'Y'\<close> up to the call of \<open>bb_run_fork_wait\<close> (lines 187--210). \<open>Inl\<close> is a
  memory fault, with the calls made until then.
\<close>

definition vglclient_args :: "string list" where
  "vglclient_args = [''vglclient'', ''-detach'']"

definition through_vglrun :: "world \<Rightarrow> string list \<Rightarrow> nat \<Rightarrow> machine \<Rightarrow> event list + machine" where
  "through_vglrun w argv oi m =
     (let m = bb_log LOG_INFO ''Running application through vglrun.\<newline>'' [] m;
          m = (if strncmp (vgl_compress (bb_config m)) ''proxy'' (BUFFER_SIZE w) \<noteq> 0
               then bb_run_fork vglclient_args m else m)
      in case build_vglrun_args (bb_config m) argv oi of
           None \<Rightarrow> Inl (trace m)
         | Some vglrun_args \<Rightarrow>
             (case c_argv vglrun_args of
                None \<Rightarrow> Inl (trace m)
              | Some args \<Rightarrow> Inr (bb_run_fork_wait args m)))"

text \<open>The loop of the availability request, with the switch on \<open>buffer[0]\<close> (lines 176--219).\<close>

fun app_loop :: "world \<Rightarrow> string list \<Rightarrow> nat \<Rightarrow> machine \<Rightarrow> read_result list \<Rightarrow> flow" where
  "app_loop w argv oi m [] =
     (if bb_socket (bb_status m) \<noteq> - 1 then Finished Waiting (trace m) else Running m [])"
| "app_loop w argv oi m (x # xs) =
     (if bb_socket (bb_status m) \<noteq> - 1 then
        (case socketRead x m of
           (r, m) \<Rightarrow>
             if 0 < r then
               (let m = bb_log LOG_INFO ''Response: %*s\<newline>'' [PInt r, PBuf (buffer m)] m
                in if hd (buffer m) = CHR ''N'' then
                     (let m = socketClose m;
                          m = bb_log LOG_WARNING ''Running application normally.\<newline>'' [] m
                      in Finished (Exec (drop oi argv)) (trace m))
                   else if hd (buffer m) = CHR ''Y'' then
                     (case through_vglrun w argv oi m of
                        Inl tr \<Rightarrow> Finished Memory_fault tr
                      | Inr m \<Rightarrow> app_loop w argv oi (socketClose m) xs)
                   else
                     (let m = bb_log LOG_ERR ''Problem: %*s\<newline>'' [PInt r, PBuf (buffer m)] m
                      in app_loop w argv oi (socketClose m) xs))
             else app_loop w argv oi m xs)
      else Running m (x # xs))"

definition run_application :: "world \<Rightarrow> string list \<Rightarrow> nat \<Rightarrow> machine \<Rightarrow> read_result list \<Rightarrow> flow" where
  "run_application w argv oi m reads =
     (if runmode (bb_status m) = BB_RUN_APP then
        (case snprintf_buffer (buffer m) (BUFFER_SIZE w) ''Checking availability...'' of
           (r, b) \<Rightarrow> app_loop w argv oi (socketWrite w r (m\<lparr>buffer := b\<rparr>)) reads)
      else Running m reads)"

subsection \<open>main (lines 82--225)\<close>

definition initial_status :: "world \<Rightarrow> string list \<Rightarrow> bb_status_struct" where
  "initial_status w argv =
     (bb_status0 w)\<lparr>program_name := (case argv of [] \<Rightarrow> None | a # _ \<Rightarrow> Some a),
                    is_daemonized := 0,
                    verbosity := VERB_WARN,
                    errors := [],
                    runmode := BB_RUN_APP\<rparr>"

definition parse_command_line :: "world \<Rightarrow> string list \<Rightarrow> parsed" where
  "parse_command_line w argv =
     parse_options (BUFFER_SIZE w) argv (initial_status w argv) (read_configuration w)
       \<lparr>optind = 1, nextchar = [], optarg = None\<rparr>"

text \<open>Lines 138--140: without an application to run, the run mode becomes status.\<close>

definition resolve_runmode :: "bb_status_struct \<Rightarrow> nat \<Rightarrow> nat \<Rightarrow> bb_status_struct" where
  "resolve_runmode st argc oi =
     (if runmode st = BB_RUN_APP \<and> argc \<le> oi then st\<lparr>runmode := BB_RUN_STATUS\<rparr> else st)"

definition main :: "world \<Rightarrow> string list \<Rightarrow> outcome \<times> event list" where
  "main w argv =
     (case parse_command_line w argv of
        Usage_exit exit_val \<Rightarrow> (Exited exit_val, [Print_usage exit_val])
      | Parsed st cfg oi \<Rightarrow>
          let st = resolve_runmode st (length argv) oi
          in if bb_init_log w \<noteq> 0
             then (Exited 1, [Fprintf_stderr ''Unexpected error, could not initialize log.\<newline>''])
             else
               let m = \<lparr>bb_status = st, bb_config = cfg, buffer = buffer0 w, trace = []\<rparr>;
                   m = bb_log LOG_DEBUG ''%s version %s starting...\<newline>''
                         [PStr (program_name st), GITVERSION] m;
                   m = socketConnect w m
               in if bb_socket (bb_status m) < 0 then
                    (let m = bb_log LOG_ERR
                               ''Could not connect to bumblebee daemon - is it running?\<newline>'' [] m;
                         m = bb_closelog m
                     in (Exited EXIT_FAILURE, trace m))
                  else
                    (case request_status w m (socketRead_results w) of
                       Finished out tr \<Rightarrow> (out, tr)
                     | Running m reads \<Rightarrow>
                         (case run_application w argv oi m reads of
                            Finished out tr \<Rightarrow> (out, tr)
                          | Running m reads \<Rightarrow>
                              (let m = bb_closelog m;
                                   m = bb_stop_all m
                               in (Exited EXIT_SUCCESS, trace m)))))"

subsection \<open>Reading a list of calls\<close>

fun is_spawn :: "event \<Rightarrow> bool" where
  "is_spawn (Bb_run_fork args) = True"
| "is_spawn (Bb_run_fork_wait args) = True"
| "is_spawn e = False"

fun is_fork_wait :: "event \<Rightarrow> bool" where
  "is_fork_wait (Bb_run_fork_wait args) = True"
| "is_fork_wait e = False"

fun is_read :: "event \<Rightarrow> bool" where
  "is_read (SocketRead r) = True"
| "is_read e = False"

fun is_write :: "event \<Rightarrow> bool" where
  "is_write (SocketWrite bytes) = True"
| "is_write e = False"

fun is_bb_log :: "event \<Rightarrow> bool" where
  "is_bb_log (Bb_log p fmt args) = True"
| "is_bb_log e = False"

text \<open>The calls made when a loop is left or the run is over.\<close>

fun flow_trace :: "flow \<Rightarrow> event list" where
  "flow_trace (Running m reads) = trace m"
| "flow_trace (Finished out tr) = tr"

text \<open>The calls made after the last call of \<open>socketRead\<close>.\<close>

definition after_last_read :: "event list \<Rightarrow> event list" where
  "after_last_read tr = rev (takeWhile (\<lambda>e. \<not> is_read e) (rev tr))"

text \<open>The calls other than log lines made after the last call of \<open>socketRead\<close>.\<close>

definition calls_after_reply :: "event list \<Rightarrow> event list" where
  "calls_after_reply tr = filter (\<lambda>e. \<not> is_bb_log e) (after_last_read tr)"

subsection \<open>The state after the request\<close>

text \<open>
  The variables of main once the log is open, the socket is connected and the request
  \<open>lit\<close> has been written without failure: lines 147--150 and 161--162 or 174--175.
\<close>

definition requested :: "world \<Rightarrow> bb_status_struct \<Rightarrow> bb_config_struct \<Rightarrow> string \<Rightarrow> machine" where
  "requested w st cfg lit =
     \<lparr>bb_status = st\<lparr>bb_socket := socketConnect_result w (socket_path cfg)\<rparr>,
      bb_config = cfg,
      buffer = snd (snprintf_buffer (buffer0 w) (BUFFER_SIZE w) lit),
      trace = [Bb_log LOG_DEBUG ''%s version %s starting...\<newline>'' [PStr (program_name st), GITVERSION],
               SocketConnect (socket_path cfg),
               SocketWrite (take (nat (fst (snprintf_buffer (buffer0 w) (BUFFER_SIZE w) lit)))
                              (snd (snprintf_buffer (buffer0 w) (BUFFER_SIZE w) lit)))]\<rparr>"

subsection \<open>A concrete run\<close>

text \<open>
  The scenario of an application run through vglrun with the JPEG transport: the daemon
  answers nothing at first, then \<open>Yes\<close>.
\<close>

definition example_world :: world where
  "example_world =
     \<lparr>BUFFER_SIZE = 256,
      bb_status0 = \<lparr>program_name = None, is_daemonized = 0, verbosity = VERB_WARN,
                    errors = [], runmode = BB_RUN_APP, bb_socket = - 1\<rparr>,
      read_configuration = \<lparr>x_display = '':8'', ld_path = ''/usr/lib/nvidia-current'',
                            socket_path = ''/var/run/bumblebee.socket'', vgl_compress = ''proxy''\<rparr>,
      bb_init_log = 0,
      socketConnect_result = (\<lambda>path. 3),
      socketWrite_fails = False,
      socketRead_results = [Received [], Received ''Yes''],
      buffer0 = []\<rparr>"

definition example_argv :: "string list" where
  "example_argv = [''optirun'', ''-m'', ''jpeg'', ''-X'', '':0'', ''-l'', ''/usr/lib'', ''--'', ''app'', ''--flag'']"

definition example_status :: bb_status_struct where
  "example_status = \<lparr>program_name = Some ''optirun'', is_daemonized = 0, verbosity = VERB_WARN,
                    errors = [], runmode = BB_RUN_APP, bb_socket = - 1\<rparr>"

definition example_config :: bb_config_struct where
  "example_config = \<lparr>x_display = '':0'', ld_path = ''/usr/lib'',
                            socket_path = ''/var/run/bumblebee.socket'', vgl_compress = ''jpeg''\<rparr>"

section \<open>Properties of the parts\<close>

lemma store_Some: "i < length a \<Longrightarrow> store a i p = Some (a[i := p])"
  by (simp add: store_def)

lemma take_update_last: "n < length a \<Longrightarrow> take (Suc n) (a[n := x]) = take n a @ [x]"
  by (simp add: take_Suc_conv_app_nth)

lemma copy_args_eq:
  "r \<le> length argv - oi \<Longrightarrow> length a = 9 + (length argv - oi) \<Longrightarrow>
   copy_args argv oi r a =
     Some (length argv - oi,
           take (8 + r) a @ map Str (drop (oi + r) argv) @ drop (8 + (length argv - oi)) a)"
proof (induction argv oi r a rule: copy_args.induct)
  case (1 argv oi r a)
  show ?case
  proof (cases "r < length argv - oi")
    case True
    then have in_bounds: "8 + r < length a" using "1.prems" by simp
    let ?a' = "a[8 + r := Str (argv ! (oi + r))]"
    have st: "store a (8 + r) (Str (argv ! (oi + r))) = Some ?a'"
      using in_bounds by (rule store_Some)
    have step: "copy_args argv oi r a = copy_args argv oi (r + 1) ?a'"
      using True by (subst copy_args.simps) (simp only: st if_True option.case)
    have ih: "copy_args argv oi (r + 1) ?a' =
          Some (length argv - oi,
           take (8 + (r + 1)) ?a' @ map Str (drop (oi + (r + 1)) argv) @
           drop (8 + (length argv - oi)) ?a')"
      using True "1.prems" by (intro "1.IH"[OF True st]) simp_all
    have t: "take (8 + (r + 1)) ?a' = take (8 + r) a @ [Str (argv ! (oi + r))]"
      using take_update_last[OF in_bounds] by simp
    have d: "drop (8 + (length argv - oi)) ?a' = drop (8 + (length argv - oi)) a"
      using True by simp
    have m: "map Str (drop (oi + r) argv) = Str (argv ! (oi + r)) # map Str (drop (oi + (r + 1)) argv)"
      using True by (simp add: Cons_nth_drop_Suc [symmetric])
    show ?thesis unfolding step ih t d m by simp
  next
    case False
    with "1.prems" have "r = length argv - oi" by simp
    then show ?thesis using "1.prems" by (subst copy_args.simps) simp
  qed
qed


lemma build_vglrun_args_eq:
  assumes "oi \<le> length argv"
  shows "build_vglrun_args cfg argv oi =
     Some (map Str ([''vglrun'', ''-c'', vgl_compress cfg, ''-d'', x_display cfg,
                     ''-ld'', ld_path cfg, ''--''] @ drop oi argv) @ [Null])"
proof -
  define n where "n = length argv - oi"
  define pre where "pre = [Str ''vglrun'', Str ''-c'', Str (vgl_compress cfg), Str ''-d'',
      Str (x_display cfg), Str ''-ld'', Str (ld_path cfg), Str ''--'']"
  define a8 where "a8 = pre @ replicate n Uninitialised @ [Uninitialised]"
  have lpre: "length pre = 8"
    by (simp add: pre_def)
  have size: "9 + length argv - oi = 8 + n + 1"
    using assms by (simp add: n_def)
  have stores: "build_vglrun_args cfg argv oi =
      Option.bind (copy_args argv oi 0 a8) (\<lambda>(r, a). store a (8 + r) Null)"
    unfolding build_vglrun_args_def size malloc_def replicate_add
    by (simp add: store_def a8_def pre_def eval_nat_numeral)
  have len: "length a8 = 9 + (length argv - oi)"
    by (simp add: a8_def n_def lpre)
  have tk: "take 8 a8 = pre"
    by (simp add: a8_def lpre)
  have dr: "drop (8 + n) a8 = [Uninitialised]"
    by (simp add: a8_def lpre)
  have copy: "copy_args argv oi 0 a8 = Some (n, pre @ map Str (drop oi argv) @ [Uninitialised])"
    using copy_args_eq[of 0 argv oi a8] len tk dr by (simp add: n_def)
  have lendrop: "length (pre @ map Str (drop oi argv)) = 8 + n"
    by (simp add: n_def lpre)
  have fin: "store (pre @ map Str (drop oi argv) @ [Uninitialised]) (8 + n) Null =
      Some (pre @ map Str (drop oi argv) @ [Null])"
    using lendrop by (simp add: store_def list_update_append lpre n_def)
  show ?thesis
    unfolding stores copy using fin by (simp add: pre_def)
qed

lemma c_argv_terminated: "c_argv (map Str xs @ Null # ps) = Some xs"
  by (induction xs) simp_all

lemma strncmp_eq_iff: "length b < n \<Longrightarrow> (strncmp a b n = 0) = (a = b)"
  by (induction a b n rule: strncmp.induct) auto

lemma parse_options_keeps:
  "parse_options n argv st cfg g = Parsed st' cfg' oi \<Longrightarrow>
   runmode st' = runmode st \<and> program_name st' = program_name st"
proof (induction "getopt_measure argv g" arbitrary: st cfg g rule: less_induct)
  case less
  obtain r g' where go: "getopt argv optstring g = (r, g')"
    by (cases "getopt argv optstring g")
  show ?case
  proof (cases r)
    case None
    with go less.prems show ?thesis
      by (subst (asm) parse_options.simps) simp
  next
    case (Some c)
    with go have "getopt_measure argv g' < getopt_measure argv g"
      by (auto dest: getopt_measure_decreases)
    note ih = less.hyps[OF this]
    from less.prems go Some show ?thesis
      by (subst (asm) parse_options.simps) (auto split: if_splits dest!: ih)
  qed
qed

lemma app_loop_closed: "bb_socket (bb_status m) = - 1 \<Longrightarrow> app_loop w argv oi m xs = Running m xs"
  by (cases xs) simp_all

lemma status_loop_closed: "bb_socket (bb_status m) = - 1 \<Longrightarrow> status_loop m xs = Running m xs"
  by (cases xs) simp_all

lemma app_loop_empty_reads:
  "bb_socket (bb_status m) \<noteq> - 1 \<Longrightarrow>
   app_loop w argv oi m (replicate k (Received []) @ xs) =
   app_loop w argv oi (m\<lparr>trace := trace m @ replicate k (SocketRead 0)\<rparr>) xs"
proof (induction k arbitrary: m)
  case 0
  then show ?case by simp
next
  case (Suc k)
  have "app_loop w argv oi m (replicate (Suc k) (Received []) @ xs) =
        app_loop w argv oi (m\<lparr>trace := trace m @ [SocketRead 0]\<rparr>) (replicate k (Received []) @ xs)"
    using Suc.prems by (simp add: socketRead_def overwrite_def emit_def)
  also have "\<dots> = app_loop w argv oi
      (m\<lparr>trace := (trace m @ [SocketRead 0]) @ replicate k (SocketRead 0)\<rparr>) xs"
    using Suc.prems by (subst Suc.IH) simp_all
  finally show ?case by (simp add: replicate_append_same)
qed

lemma status_loop_empty_reads:
  "bb_socket (bb_status m) \<noteq> - 1 \<Longrightarrow>
   status_loop m (replicate k (Received []) @ xs) =
   status_loop (m\<lparr>trace := trace m @ replicate k (SocketRead 0)\<rparr>) xs"
proof (induction k arbitrary: m)
  case 0
  then show ?case by simp
next
  case (Suc k)
  have "status_loop m (replicate (Suc k) (Received []) @ xs) =
        status_loop (m\<lparr>trace := trace m @ [SocketRead 0]\<rparr>) (replicate k (Received []) @ xs)"
    using Suc.prems by (simp add: socketRead_def overwrite_def emit_def)
  also have "\<dots> = status_loop
      (m\<lparr>trace := (trace m @ [SocketRead 0]) @ replicate k (SocketRead 0)\<rparr>) xs"
    using Suc.prems by (subst Suc.IH) simp_all
  finally show ?case by (simp add: replicate_append_same)
qed

lemma hd_overwrite: "payload \<noteq> [] \<Longrightarrow> hd (overwrite payload buf) = hd payload"
  by (simp add: overwrite_def)

lemma app_loop_N:
  assumes "bb_socket (bb_status m) \<noteq> - 1" "payload \<noteq> []" "hd payload = CHR ''N''"
  shows "app_loop w argv oi m (Received payload # rest) =
     Finished (Exec (drop oi argv))
       (trace m @
        [SocketRead (int (length payload)),
         Bb_log LOG_INFO ''Response: %*s\<newline>''
           [PInt (int (length payload)), PBuf (overwrite payload (buffer m))],
         SocketClose,
         Bb_log LOG_WARNING ''Running application normally.\<newline>'' []])"
  using assms
  by (simp add: socketRead_def socketClose_def bb_log_def emit_def set_socket_def hd_overwrite Let_def)

lemma app_loop_other:
  assumes "bb_socket (bb_status m) \<noteq> - 1" "payload \<noteq> []"
    "hd payload \<noteq> CHR ''N''" "hd payload \<noteq> CHR ''Y''"
  shows "app_loop w argv oi m (Received payload # rest) =
     Running
       (m\<lparr>bb_status := (bb_status m)\<lparr>bb_socket := - 1\<rparr>,
          buffer := overwrite payload (buffer m),
          trace := trace m @
            [SocketRead (int (length payload)),
             Bb_log LOG_INFO ''Response: %*s\<newline>''
               [PInt (int (length payload)), PBuf (overwrite payload (buffer m))],
             Bb_log LOG_ERR ''Problem: %*s\<newline>''
               [PInt (int (length payload)), PBuf (overwrite payload (buffer m))],
             SocketClose]\<rparr>)
       rest"
  using assms
  by (simp add: socketRead_def socketClose_def bb_log_def emit_def set_socket_def hd_overwrite
      Let_def app_loop_closed)

lemma through_vglrun_eq:
  assumes "oi \<le> length argv"
  shows "through_vglrun w argv oi m =
     Inr (m\<lparr>trace := trace m @
            [Bb_log LOG_INFO ''Running application through vglrun.\<newline>'' []] @
            (if strncmp (vgl_compress (bb_config m)) ''proxy'' (BUFFER_SIZE w) \<noteq> 0
             then [Bb_run_fork [''vglclient'', ''-detach'']] else []) @
            [Bb_run_fork_wait
               ([''vglrun'', ''-c'', vgl_compress (bb_config m), ''-d'', x_display (bb_config m),
                 ''-ld'', ld_path (bb_config m), ''--''] @ drop oi argv)]\<rparr>)"
  using assms c_argv_terminated[of _ "[]"]
  by (simp add: through_vglrun_def build_vglrun_args_eq bb_log_def bb_run_fork_def
      bb_run_fork_wait_def emit_def vglclient_args_def Let_def del: map_append)

lemma app_loop_Y:
  assumes "bb_socket (bb_status m) \<noteq> - 1" "payload \<noteq> []" "hd payload = CHR ''Y''"
    "oi \<le> length argv"
  shows "app_loop w argv oi m (Received payload # rest) =
     Running
       (m\<lparr>bb_status := (bb_status m)\<lparr>bb_socket := - 1\<rparr>,
          buffer := overwrite payload (buffer m),
          trace := trace m @
            [SocketRead (int (length payload)),
             Bb_log LOG_INFO ''Response: %*s\<newline>''
               [PInt (int (length payload)), PBuf (overwrite payload (buffer m))],
             Bb_log LOG_INFO ''Running application through vglrun.\<newline>'' []] @
            (if strncmp (vgl_compress (bb_config m)) ''proxy'' (BUFFER_SIZE w) \<noteq> 0
             then [Bb_run_fork [''vglclient'', ''-detach'']] else []) @
            [Bb_run_fork_wait
               ([''vglrun'', ''-c'', vgl_compress (bb_config m), ''-d'', x_display (bb_config m),
                 ''-ld'', ld_path (bb_config m), ''--''] @ drop oi argv),
             SocketClose]\<rparr>)
       rest"
  using assms
  by (simp add: socketRead_def socketClose_def bb_log_def emit_def set_socket_def hd_overwrite
      Let_def app_loop_closed through_vglrun_eq)

lemma parse_command_line_runmode:
  "parse_command_line w argv = Parsed st cfg oi \<Longrightarrow> runmode st = BB_RUN_APP"
  by (auto simp: parse_command_line_def initial_status_def dest: parse_options_keeps)

lemma main_application:
  assumes "parse_command_line w argv = Parsed st cfg oi"
    and "oi < length argv"
    and "bb_init_log w = 0"
    and "0 \<le> socketConnect_result w (socket_path cfg)"
    and "\<not> socketWrite_fails w"
  shows "main w argv =
     (case app_loop w argv oi (requested w st cfg ''Checking availability...'') (socketRead_results w) of
        Finished out tr \<Rightarrow> (out, tr)
      | Running m reads \<Rightarrow> (Exited 0, trace m @ [Bb_closelog, Bb_stop_all]))"
proof -
  have app: "runmode st = BB_RUN_APP"
    using assms(1) by (rule parse_command_line_runmode)
  then have res: "resolve_runmode st (length argv) oi = st"
    using assms(2) by (simp add: resolve_runmode_def)
  show ?thesis
    using assms app
    by (simp add: main_def res Let_def bb_log_def socketConnect_def emit_def set_socket_def
        request_status_def run_application_def case_prod_unfold socketWrite_def requested_def
        bb_closelog_def bb_stop_all_def EXIT_SUCCESS_def cong: flow.case_cong)
qed

lemma requested_socket:
  "0 \<le> socketConnect_result w (socket_path cfg) \<Longrightarrow>
   bb_socket (bb_status (requested w st cfg lit)) \<noteq> - 1"
  by (simp add: requested_def)


lemma run_Y:
  assumes "parse_command_line w argv = Parsed st cfg oi"
    and "oi < length argv"
    and "bb_init_log w = 0"
    and "0 \<le> socketConnect_result w (socket_path cfg)"
    and "\<not> socketWrite_fails w"
    and "socketRead_results w = replicate k (Received []) @ Received payload # rest"
    and "payload \<noteq> []"
    and "hd payload = CHR ''Y''"
  shows "main w argv =
     (Exited 0,
      trace (requested w st cfg ''Checking availability...'') @
      replicate k (SocketRead 0) @
      [SocketRead (int (length payload)),
       Bb_log LOG_INFO ''Response: %*s\<newline>''
         [PInt (int (length payload)),
          PBuf (overwrite payload (buffer (requested w st cfg ''Checking availability...'')))],
       Bb_log LOG_INFO ''Running application through vglrun.\<newline>'' []] @
      (if strncmp (vgl_compress cfg) ''proxy'' (BUFFER_SIZE w) \<noteq> 0
       then [Bb_run_fork [''vglclient'', ''-detach'']] else []) @
      [Bb_run_fork_wait
         ([''vglrun'', ''-c'', vgl_compress cfg, ''-d'', x_display cfg, ''-ld'', ld_path cfg, ''--'']
          @ drop oi argv),
       SocketClose, Bb_closelog, Bb_stop_all])"
proof -
  let ?m = "requested w st cfg ''Checking availability...''"
  have sock: "bb_socket (bb_status ?m) \<noteq> - 1"
    using assms(4) by (rule requested_socket)
  have cfg: "bb_config ?m = cfg"
    by (simp add: requested_def)
  let ?m' = "?m\<lparr>trace := trace ?m @ replicate k (SocketRead 0)\<rparr>"
  have sock': "bb_socket (bb_status ?m') \<noteq> - 1"
    using sock by simp
  have skip: "app_loop w argv oi ?m (replicate k (Received []) @ Received payload # rest) =
      app_loop w argv oi ?m' (Received payload # rest)"
    using sock by (rule app_loop_empty_reads)
  note step = app_loop_Y[OF sock' assms(7,8) less_imp_le[OF assms(2)]]
  show ?thesis
    unfolding main_application[OF assms(1-5)] assms(6) skip step
    by (simp add: cfg)
qed

lemma run_N:
  assumes "parse_command_line w argv = Parsed st cfg oi"
    and "oi < length argv"
    and "bb_init_log w = 0"
    and "0 \<le> socketConnect_result w (socket_path cfg)"
    and "\<not> socketWrite_fails w"
    and "socketRead_results w = replicate k (Received []) @ Received payload # rest"
    and "payload \<noteq> []"
    and "hd payload = CHR ''N''"
  shows "main w argv =
     (Exec (drop oi argv),
      trace (requested w st cfg ''Checking availability...'') @
      replicate k (SocketRead 0) @
      [SocketRead (int (length payload)),
       Bb_log LOG_INFO ''Response: %*s\<newline>''
         [PInt (int (length payload)),
          PBuf (overwrite payload (buffer (requested w st cfg ''Checking availability...'')))],
       SocketClose,
       Bb_log LOG_WARNING ''Running application normally.\<newline>'' []])"
proof -
  let ?m = "requested w st cfg ''Checking availability...''"
  have sock: "bb_socket (bb_status ?m) \<noteq> - 1"
    using assms(4) by (rule requested_socket)
  let ?m' = "?m\<lparr>trace := trace ?m @ replicate k (SocketRead 0)\<rparr>"
  have sock': "bb_socket (bb_status ?m') \<noteq> - 1"
    using sock by simp
  have skip: "app_loop w argv oi ?m (replicate k (Received []) @ Received payload # rest) =
      app_loop w argv oi ?m' (Received payload # rest)"
    using sock by (rule app_loop_empty_reads)
  note step = app_loop_N[OF sock' assms(7,8)]
  show ?thesis
    unfolding main_application[OF assms(1-5)] assms(6) skip step
    by (simp)
qed

lemma run_other:
  assumes "parse_command_line w argv = Parsed st cfg oi"
    and "oi < length argv"
    and "bb_init_log w = 0"
    and "0 \<le> socketConnect_result w (socket_path cfg)"
    and "\<not> socketWrite_fails w"
    and "socketRead_results w = replicate k (Received []) @ Received payload # rest"
    and "payload \<noteq> []"
    and "hd payload \<noteq> CHR ''Y''"
    and "hd payload \<noteq> CHR ''N''"
  shows "main w argv =
     (Exited 0,
      trace (requested w st cfg ''Checking availability...'') @
      replicate k (SocketRead 0) @
      [SocketRead (int (length payload)),
       Bb_log LOG_INFO ''Response: %*s\<newline>''
         [PInt (int (length payload)),
          PBuf (overwrite payload (buffer (requested w st cfg ''Checking availability...'')))],
       Bb_log LOG_ERR ''Problem: %*s\<newline>''
         [PInt (int (length payload)),
          PBuf (overwrite payload (buffer (requested w st cfg ''Checking availability...'')))],
       SocketClose, Bb_closelog, Bb_stop_all])"
proof -
  let ?m = "requested w st cfg ''Checking availability...''"
  have sock: "bb_socket (bb_status ?m) \<noteq> - 1"
    using assms(4) by (rule requested_socket)
  let ?m' = "?m\<lparr>trace := trace ?m @ replicate k (SocketRead 0)\<rparr>"
  have sock': "bb_socket (bb_status ?m') \<noteq> - 1"
    using sock by simp
  have skip: "app_loop w argv oi ?m (replicate k (Received []) @ Received payload # rest) =
      app_loop w argv oi ?m' (Received payload # rest)"
    using sock by (rule app_loop_empty_reads)
  note step = app_loop_other[OF sock' assms(7) assms(9) assms(8)]
  show ?thesis
    unfolding main_application[OF assms(1-5)] assms(6) skip step
    by (simp)
qed

lemma example_parse:
  "parse_command_line (example_world\<lparr>socketRead_results := rs\<rparr>) example_argv = Parsed example_status example_config 8"
  by (simp add: parse_command_line_def example_world_def example_argv_def example_status_def example_config_def
     initial_status_def parse_options.simps getopt_def getopt_required_def optstring_def is_option_element_def
     optarg_string_def snprintf_s_def Let_def)

lemma example_parse_any:
  assumes "BUFFER_SIZE w = BUFFER_SIZE example_world"
    and "bb_status0 w = bb_status0 example_world"
    and "read_configuration w = read_configuration example_world"
  shows "parse_command_line w example_argv = Parsed example_status example_config 8"
  using example_parse[of "socketRead_results example_world"] assms
  by (simp add: parse_command_line_def initial_status_def)

lemma after_last_read_eq:
  assumes "\<And>e. e \<in> set post \<Longrightarrow> \<not> is_read e"
  shows "after_last_read (pre @ SocketRead r # post) = post"
proof -
  have "takeWhile (\<lambda>e. \<not> is_read e) (rev post @ SocketRead r # rev pre) =
        rev post @ takeWhile (\<lambda>e. \<not> is_read e) (SocketRead r # rev pre)"
    by (rule takeWhile_append2) (simp add: assms)
  then show ?thesis
    by (simp add: after_last_read_def)
qed

lemma after_last_read_run:
  assumes "\<And>e. e \<in> set post \<Longrightarrow> \<not> is_read e"
  shows "after_last_read (xs @ ys @ SocketRead r # post) = post"
  using after_last_read_eq[OF assms, where pre = "xs @ ys" and r = r] by simp

lemma take_overwrite: "take (length payload) (overwrite payload buf) = payload"
  by (simp add: overwrite_def)

lemma status_loop_writes:
  "filter is_write (flow_trace (status_loop m xs)) = filter is_write (trace m)"
  by (induction xs arbitrary: m)
     (simp_all add: socketRead_def socketClose_def emit_def set_socket_def Let_def
        split: read_result.splits)

lemma status_loop_runmode:
  "status_loop m xs = Running m' ys \<Longrightarrow> runmode (bb_status m') = runmode (bb_status m)"
proof (induction xs arbitrary: m)
  case Nil
  then show ?case by (simp split: if_splits)
next
  case (Cons x xs)
  from Cons.prems show ?case
    by (auto simp: socketRead_def socketClose_def emit_def set_socket_def Let_def
        split: read_result.splits if_splits dest!: Cons.IH)
qed

lemma status_request_bytes:
  assumes "8 \<le> n"
  shows "take (nat (fst (snprintf_buffer buf n ''Status?''))) (snd (snprintf_buffer buf n ''Status?'')) =
     ''Status?''"
proof -
  have "take (n - 1) ''Status?'' = ''Status?''"
    using assms by simp
  then show ?thesis
    using assms by (simp add: snprintf_buffer_def overwrite_def)
qed

lemma main_status:
  assumes "parse_command_line w argv = Parsed st cfg oi"
    and "length argv \<le> oi"
    and "bb_init_log w = 0"
    and "0 \<le> socketConnect_result w (socket_path cfg)"
  shows "filter is_write (snd (main w argv)) =
     [SocketWrite (take (nat (fst (snprintf_buffer (buffer0 w) (BUFFER_SIZE w) ''Status?'')))
                        (snd (snprintf_buffer (buffer0 w) (BUFFER_SIZE w) ''Status?'')))]"
proof -
  have app: "runmode st = BB_RUN_APP"
    using assms(1) by (rule parse_command_line_runmode)
  then have res: "resolve_runmode st (length argv) oi = st\<lparr>runmode := BB_RUN_STATUS\<rparr>"
    using assms(2) by (simp add: resolve_runmode_def)
  define m where "m = socketWrite w (fst (snprintf_buffer (buffer0 w) (BUFFER_SIZE w) ''Status?''))
     \<lparr>bb_status = st\<lparr>runmode := BB_RUN_STATUS, bb_socket := socketConnect_result w (socket_path cfg)\<rparr>,
      bb_config = cfg,
      buffer = snd (snprintf_buffer (buffer0 w) (BUFFER_SIZE w) ''Status?''),
      trace = [Bb_log LOG_DEBUG ''%s version %s starting...\<newline>'' [PStr (program_name st), GITVERSION],
               SocketConnect (socket_path cfg)]\<rparr>"
  have mode: "runmode (bb_status m) = BB_RUN_STATUS"
    by (simp add: m_def socketWrite_def emit_def set_socket_def Let_def)
  have wr: "filter is_write (trace m) =
     [SocketWrite (take (nat (fst (snprintf_buffer (buffer0 w) (BUFFER_SIZE w) ''Status?'')))
                        (snd (snprintf_buffer (buffer0 w) (BUFFER_SIZE w) ''Status?'')))]"
    by (simp add: m_def socketWrite_def emit_def set_socket_def Let_def)
  have main: "main w argv =
     (case status_loop m (socketRead_results w) of
        Finished out tr \<Rightarrow> (out, tr)
      | Running m' reads \<Rightarrow>
          (case run_application w argv oi m' reads of
             Finished out tr \<Rightarrow> (out, tr)
           | Running m'' reads' \<Rightarrow> (Exited 0, trace m'' @ [Bb_closelog, Bb_stop_all])))"
    using assms
    by (simp add: main_def res Let_def bb_log_def socketConnect_def emit_def set_socket_def
        request_status_def case_prod_unfold m_def
        bb_closelog_def bb_stop_all_def EXIT_SUCCESS_def cong: flow.case_cong)
  show ?thesis
  proof (cases "status_loop m (socketRead_results w)")
    case (Running m' reads)
    have "runmode (bb_status m') = BB_RUN_STATUS"
      using status_loop_runmode[OF Running] mode by simp
    then have "run_application w argv oi m' reads = Running m' reads"
      by (simp add: run_application_def)
    then have "snd (main w argv) = trace m' @ [Bb_closelog, Bb_stop_all]"
      by (simp add: main Running)
    moreover have "filter is_write (trace m') = filter is_write (trace m)"
      using status_loop_writes[of m "socketRead_results w"] by (simp add: Running)
    ultimately show ?thesis using wr by simp
  next
    case (Finished out tr)
    then have "snd (main w argv) = tr"
      by (simp add: main)
    moreover have "filter is_write tr = filter is_write (trace m)"
      using status_loop_writes[of m "socketRead_results w"] by (simp add: Finished)
    ultimately show ?thesis using wr by simp
  qed
qed

lemma reads_of_request:
  "filter is_read (trace (requested w st cfg lit)) = []"
  by (simp add: requested_def)

section \<open>The claims\<close>

text \<open>
  In the theorems below, \<open>st\<close>, \<open>cfg\<close> and \<open>oi\<close> are the status, the configuration and
  \<open>optind\<close> when option parsing is over; the trailing arguments of the command line are
  \<open>drop oi argv\<close>. A verdict is reached when the log could be opened, the socket
  connected and the request written, and the first non-empty reply \<open>payload\<close> arrives
  after \<open>k\<close> reads that found nothing.
\<close>

text \<open>
  C1: for a reply that starts with \<open>Y\<close>, the only process started with
  \<open>bb_run_fork_wait\<close> has the argument vector \<open>vglrun -c <method> -d <display> -ld <path> --\<close>
  followed by the trailing arguments of the command line, unchanged and in order.
\<close>

theorem wrapper_argv_redirect:
  assumes "parse_command_line w argv = Parsed st cfg oi"
    and "oi < length argv"
    and "bb_init_log w = 0"
    and "0 \<le> socketConnect_result w (socket_path cfg)"
    and "\<not> socketWrite_fails w"
    and "socketRead_results w = replicate k (Received []) @ Received payload # rest"
    and "payload \<noteq> []"
    and "hd payload = CHR ''Y''"
  shows "filter is_fork_wait (snd (main w argv)) =
     [Bb_run_fork_wait
        ([''vglrun'', ''-c'', vgl_compress cfg, ''-d'', x_display cfg, ''-ld'', ld_path cfg, ''--'']
         @ drop oi argv)]"
  unfolding run_Y[OF assms]
  by (simp add: requested_def)

theorem wrapper_argv_redirect_witness:
  "filter is_fork_wait (snd (main example_world example_argv)) =
     [Bb_run_fork_wait [''vglrun'', ''-c'', ''jpeg'', ''-d'', '':0'', ''-ld'', ''/usr/lib'', ''--'',
                        ''app'', ''--flag'']]"
proof -
  have parse: "parse_command_line example_world example_argv = Parsed example_status example_config 8"
    using example_parse[of "socketRead_results example_world"] by simp
  have args: "8 < length example_argv"
    by (simp add: example_argv_def)
  have log: "bb_init_log example_world = 0"
    by (simp add: example_world_def)
  have conn: "0 \<le> socketConnect_result example_world (socket_path example_config)"
    by (simp add: example_world_def)
  have wr: "\<not> socketWrite_fails example_world"
    by (simp add: example_world_def)
  have reads: "socketRead_results example_world = replicate 1 (Received []) @ Received ''Yes'' # []"
    by (simp add: example_world_def)
  have ne: "''Yes'' \<noteq> []" by simp
  have y: "hd ''Yes'' = CHR ''Y''" by simp
  show ?thesis
    using wrapper_argv_redirect[OF parse args log conn wr reads ne y]
    by (simp add: example_config_def example_argv_def)
qed

text \<open>
  C2: for a reply that starts with \<open>N\<close>, main ends by handing to \<open>bb_run_exec\<close> exactly the
  trailing arguments of the command line, in their order, and has started no other process.
\<close>

theorem direct_exec_allow:
  assumes "parse_command_line w argv = Parsed st cfg oi"
    and "oi < length argv"
    and "bb_init_log w = 0"
    and "0 \<le> socketConnect_result w (socket_path cfg)"
    and "\<not> socketWrite_fails w"
    and "socketRead_results w = replicate k (Received []) @ Received payload # rest"
    and "payload \<noteq> []"
    and "hd payload = CHR ''N''"
  shows "fst (main w argv) = Exec (drop oi argv) \<and> filter is_spawn (snd (main w argv)) = []"
  unfolding run_N[OF assms]
  by (simp add: requested_def)

theorem direct_exec_allow_witness:
  "fst (main (example_world\<lparr>socketRead_results := [Received ''No'']\<rparr>) example_argv) =
     Exec [''app'', ''--flag''] \<and>
   filter is_spawn (snd (main (example_world\<lparr>socketRead_results := [Received ''No'']\<rparr>) example_argv)) = []"
proof -
  let ?w = "example_world\<lparr>socketRead_results := [Received ''No'']\<rparr>"
  have parse: "parse_command_line ?w example_argv = Parsed example_status example_config 8"
    by (rule example_parse)
  have args: "8 < length example_argv"
    by (simp add: example_argv_def)
  have log: "bb_init_log ?w = 0"
    by (simp add: example_world_def)
  have conn: "0 \<le> socketConnect_result ?w (socket_path example_config)"
    by (simp add: example_world_def)
  have wr: "\<not> socketWrite_fails ?w"
    by (simp add: example_world_def)
  have reads: "socketRead_results ?w = replicate 0 (Received []) @ Received ''No'' # []"
    by simp
  have ne: "''No'' \<noteq> []" by simp
  have n: "hd ''No'' = CHR ''N''" by simp
  show ?thesis
    using direct_exec_allow[OF parse args log conn wr reads ne n]
    by (simp add: example_argv_def)
qed

text \<open>
  C3: for a reply that starts with \<open>Y\<close>, the processes started are, in this order, the
  detached \<open>vglclient -detach\<close> exactly when the compression method is not \<open>proxy\<close>, then
  vglrun. \<open>BUFFER_SIZE\<close>, the bound of the \<open>strncmp\<close>, is large enough to hold \<open>proxy\<close>.
\<close>

theorem companion_iff_not_proxy:
  assumes "parse_command_line w argv = Parsed st cfg oi"
    and "oi < length argv"
    and "bb_init_log w = 0"
    and "0 \<le> socketConnect_result w (socket_path cfg)"
    and "\<not> socketWrite_fails w"
    and "socketRead_results w = replicate k (Received []) @ Received payload # rest"
    and "payload \<noteq> []"
    and "hd payload = CHR ''Y''"
    and "6 \<le> BUFFER_SIZE w"
  shows "filter is_spawn (snd (main w argv)) =
     (if vgl_compress cfg = ''proxy'' then [] else [Bb_run_fork [''vglclient'', ''-detach'']]) @
     [Bb_run_fork_wait
        ([''vglrun'', ''-c'', vgl_compress cfg, ''-d'', x_display cfg, ''-ld'', ld_path cfg, ''--'']
         @ drop oi argv)]"
proof -
  have "length ''proxy'' < BUFFER_SIZE w"
    using assms(9) by simp
  then have cmp: "(strncmp (vgl_compress cfg) ''proxy'' (BUFFER_SIZE w) = 0) = (vgl_compress cfg = ''proxy'')"
    by (rule strncmp_eq_iff)
  show ?thesis
    unfolding run_Y[OF assms(1-8)] cmp
    by (simp add: requested_def)
qed

theorem companion_iff_not_proxy_witness:
  "filter is_spawn (snd (main example_world example_argv)) =
     [Bb_run_fork [''vglclient'', ''-detach''],
      Bb_run_fork_wait [''vglrun'', ''-c'', ''jpeg'', ''-d'', '':0'', ''-ld'', ''/usr/lib'', ''--'',
                        ''app'', ''--flag'']] \<and>
   filter is_spawn (snd (main example_world [''optirun'', ''glxgears''])) =
     [Bb_run_fork_wait [''vglrun'', ''-c'', ''proxy'', ''-d'', '':8'', ''-ld'',
                        ''/usr/lib/nvidia-current'', ''--'', ''glxgears'']]"
proof -
  have parse: "parse_command_line example_world example_argv = Parsed example_status example_config 8"
    using example_parse[of "socketRead_results example_world"] by simp
  have parse': "parse_command_line example_world [''optirun'', ''glxgears''] =
      Parsed example_status (read_configuration example_world) 1"
    by (simp add: parse_command_line_def example_world_def example_status_def
      initial_status_def parse_options.simps getopt_def is_option_element_def Let_def)
  have args: "8 < length example_argv"
    by (simp add: example_argv_def)
  have args': "1 < length [''optirun'', ''glxgears'']"
    by simp
  have log: "bb_init_log example_world = 0"
    by (simp add: example_world_def)
  have conn: "0 \<le> socketConnect_result example_world (socket_path example_config)"
    by (simp add: example_world_def)
  have conn': "0 \<le> socketConnect_result example_world (socket_path (read_configuration example_world))"
    by (simp add: example_world_def)
  have wr: "\<not> socketWrite_fails example_world"
    by (simp add: example_world_def)
  have reads: "socketRead_results example_world = replicate 1 (Received []) @ Received ''Yes'' # []"
    by (simp add: example_world_def)
  have ne: "''Yes'' \<noteq> []" by simp
  have y: "hd ''Yes'' = CHR ''Y''" by simp
  have size: "6 \<le> BUFFER_SIZE example_world"
    by (simp add: example_world_def)
  show ?thesis
    using companion_iff_not_proxy[OF parse args log conn wr reads ne y size]
      companion_iff_not_proxy[OF parse' args' log conn' wr reads ne y size]
    by (simp add: example_config_def example_argv_def example_world_def)
qed

text \<open>
  C4: for a reply that starts with neither \<open>Y\<close> nor \<open>N\<close>, main returns (it does not hand
  over to \<open>bb_run_exec\<close>), starts no process, and after the read it logs the reply, logs
  it again as an error with the buffer that holds the bytes received, closes the socket
  and shuts down.
\<close>

theorem unknown_verdict_runs_nothing:
  assumes "parse_command_line w argv = Parsed st cfg oi"
    and "oi < length argv"
    and "bb_init_log w = 0"
    and "0 \<le> socketConnect_result w (socket_path cfg)"
    and "\<not> socketWrite_fails w"
    and "socketRead_results w = replicate k (Received []) @ Received payload # rest"
    and "payload \<noteq> []"
    and "hd payload \<noteq> CHR ''Y''"
    and "hd payload \<noteq> CHR ''N''"
  shows "(\<exists>status. fst (main w argv) = Exited status) \<and>
     filter is_spawn (snd (main w argv)) = [] \<and>
     (\<exists>buf. take (length payload) buf = payload \<and>
        after_last_read (snd (main w argv)) =
          [Bb_log LOG_INFO ''Response: %*s\<newline>'' [PInt (int (length payload)), PBuf buf],
           Bb_log LOG_ERR ''Problem: %*s\<newline>'' [PInt (int (length payload)), PBuf buf],
           SocketClose, Bb_closelog, Bb_stop_all])"
proof -
  let ?buf = "overwrite payload (buffer (requested w st cfg ''Checking availability...''))"
  have spawn: "filter is_spawn (snd (main w argv)) = []"
    unfolding run_other[OF assms] by (simp add: requested_def)
  have after: "after_last_read (snd (main w argv)) =
      [Bb_log LOG_INFO ''Response: %*s\<newline>'' [PInt (int (length payload)), PBuf ?buf],
       Bb_log LOG_ERR ''Problem: %*s\<newline>'' [PInt (int (length payload)), PBuf ?buf],
       SocketClose, Bb_closelog, Bb_stop_all]"
    unfolding run_other[OF assms] snd_conv
    by (rule after_last_read_run) auto
  have exit: "fst (main w argv) = Exited 0"
    unfolding run_other[OF assms] by simp
  from exit spawn after take_overwrite show ?thesis
    by blast
qed

theorem unknown_verdict_runs_nothing_witness:
  "(\<exists>status. fst (main (example_world\<lparr>socketRead_results := [Received ''Error'']\<rparr>) example_argv) = Exited status) \<and>
   filter is_spawn (snd (main (example_world\<lparr>socketRead_results := [Received ''Error'']\<rparr>) example_argv)) = [] \<and>
   (\<exists>buf. take (length ''Error'') buf = ''Error'' \<and>
      after_last_read (snd (main (example_world\<lparr>socketRead_results := [Received ''Error'']\<rparr>) example_argv)) =
        [Bb_log LOG_INFO ''Response: %*s\<newline>'' [PInt (int (length ''Error'')), PBuf buf],
         Bb_log LOG_ERR ''Problem: %*s\<newline>'' [PInt (int (length ''Error'')), PBuf buf],
         SocketClose, Bb_closelog, Bb_stop_all])"
proof -
  let ?w = "example_world\<lparr>socketRead_results := [Received ''Error'']\<rparr>"
  have parse: "parse_command_line ?w example_argv = Parsed example_status example_config 8"
    by (rule example_parse)
  have args: "8 < length example_argv"
    by (simp add: example_argv_def)
  have log: "bb_init_log ?w = 0"
    by (simp add: example_world_def)
  have conn: "0 \<le> socketConnect_result ?w (socket_path example_config)"
    by (simp add: example_world_def)
  have wr: "\<not> socketWrite_fails ?w"
    by (simp add: example_world_def)
  have reads: "socketRead_results ?w = replicate 0 (Received []) @ Received ''Error'' # []"
    by simp
  have ne: "''Error'' \<noteq> []" by simp
  have y: "hd ''Error'' \<noteq> CHR ''Y''" by simp
  have n: "hd ''Error'' \<noteq> CHR ''N''" by simp
  show ?thesis
    using unknown_verdict_runs_nothing[OF parse args log conn wr reads ne y n] .
qed

text \<open>
  C10: after a reply that starts with neither \<open>Y\<close> nor \<open>N\<close>, main returns
  \<open>EXIT_SUCCESS\<close>, that is 0.
\<close>

theorem unknown_verdict_exit_success:
  assumes "parse_command_line w argv = Parsed st cfg oi"
    and "oi < length argv"
    and "bb_init_log w = 0"
    and "0 \<le> socketConnect_result w (socket_path cfg)"
    and "\<not> socketWrite_fails w"
    and "socketRead_results w = replicate k (Received []) @ Received payload # rest"
    and "payload \<noteq> []"
    and "hd payload \<noteq> CHR ''Y''"
    and "hd payload \<noteq> CHR ''N''"
  shows "fst (main w argv) = Exited EXIT_SUCCESS \<and> EXIT_SUCCESS = 0"
  unfolding run_other[OF assms]
  by (simp add: EXIT_SUCCESS_def)

theorem unknown_verdict_exit_success_witness:
  "fst (main (example_world\<lparr>socketRead_results := [Received [], Received [], Received ''?'', Received ''Yes'']\<rparr>)
         example_argv) = Exited 0"
proof -
  let ?w = "example_world\<lparr>socketRead_results := [Received [], Received [], Received ''?'', Received ''Yes'']\<rparr>"
  have parse: "parse_command_line ?w example_argv = Parsed example_status example_config 8"
    by (rule example_parse)
  have args: "8 < length example_argv"
    by (simp add: example_argv_def)
  have log: "bb_init_log ?w = 0"
    by (simp add: example_world_def)
  have conn: "0 \<le> socketConnect_result ?w (socket_path example_config)"
    by (simp add: example_world_def)
  have wr: "\<not> socketWrite_fails ?w"
    by (simp add: example_world_def)
  have reads: "socketRead_results ?w = replicate 2 (Received []) @ Received ''?'' # [Received ''Yes'']"
    by (simp add: numeral_2_eq_2)
  have ne: "''?'' \<noteq> []" by simp
  have y: "hd ''?'' \<noteq> CHR ''Y''" by simp
  have n: "hd ''?'' \<noteq> CHR ''N''" by simp
  show ?thesis
    using unknown_verdict_exit_success[OF parse args log conn wr reads ne y n]
    by (simp add: EXIT_SUCCESS_def)
qed

text \<open>
  C7: when \<open>socketConnect\<close> returns a negative handle, the whole run is: the start-up log
  line, the one call of \<open>socketConnect\<close>, the error log line and \<open>bb_closelog\<close>; nothing is
  written to the socket, and main returns \<open>EXIT_FAILURE\<close>, which is not 0.
\<close>

theorem connect_failure_is_fatal:
  assumes "parse_command_line w argv = Parsed st cfg oi"
    and "bb_init_log w = 0"
    and "socketConnect_result w (socket_path cfg) < 0"
  shows "main w argv =
     (Exited EXIT_FAILURE,
      [Bb_log LOG_DEBUG ''%s version %s starting...\<newline>'' [PStr (program_name st), GITVERSION],
       SocketConnect (socket_path cfg),
       Bb_log LOG_ERR ''Could not connect to bumblebee daemon - is it running?\<newline>'' [],
       Bb_closelog]) \<and>
     EXIT_FAILURE \<noteq> 0"
  using assms
  by (simp add: main_def resolve_runmode_def Let_def bb_log_def socketConnect_def emit_def
      set_socket_def bb_closelog_def EXIT_FAILURE_def)

theorem connect_failure_is_fatal_witness:
  "main (example_world\<lparr>socketConnect_result := (\<lambda>path. - 1)\<rparr>) example_argv =
     (Exited 1,
      [Bb_log LOG_DEBUG ''%s version %s starting...\<newline>'' [PStr (Some ''optirun''), GITVERSION],
       SocketConnect ''/var/run/bumblebee.socket'',
       Bb_log LOG_ERR ''Could not connect to bumblebee daemon - is it running?\<newline>'' [],
       Bb_closelog])"
proof -
  let ?w = "example_world\<lparr>socketConnect_result := (\<lambda>path. - 1)\<rparr>"
  have parse: "parse_command_line ?w example_argv = Parsed example_status example_config 8"
    by (rule example_parse_any) simp_all
  have log: "bb_init_log ?w = 0"
    by (simp add: example_world_def)
  have conn: "socketConnect_result ?w (socket_path example_config) < 0"
    by simp
  show ?thesis
    using connect_failure_is_fatal[OF parse log conn]
    by (simp add: example_status_def example_config_def EXIT_FAILURE_def)
qed

text \<open>
  C8: the option string given to getopt has no \<open>q\<close>, so \<open>-q\<close> is answered with \<open>?\<close> and
  the default case prints the usage and exits with \<open>EXIT_FAILURE\<close>; the case \<open>'q'\<close> of the
  switch is never reached.
\<close>

theorem quiet_flag_is_rejected:
  "main w [''optirun'', ''-q'', ''glxgears''] = (Exited EXIT_FAILURE, [Print_usage EXIT_FAILURE])"
  by (simp add: main_def parse_command_line_def parse_options.simps getopt_def optstring_def
      is_option_element_def Let_def)

text \<open>
  C9: with \<open>optind\<close> within the command line, the array allocated for vglrun has
  \<open>8 + n + 1\<close> slots for \<open>n\<close> trailing arguments; every store is inside the array (the
  construction does not fail), the slots hold the eight fixed strings and the trailing
  arguments, and the last slot holds the null pointer.
\<close>

theorem vglrun_args_slots:
  assumes "oi \<le> length argv"
  shows "length (malloc (9 + length argv - oi)) = 8 + length (drop oi argv) + 1 \<and>
     build_vglrun_args cfg argv oi =
       Some (map Str ([''vglrun'', ''-c'', vgl_compress cfg, ''-d'', x_display cfg,
                       ''-ld'', ld_path cfg, ''--''] @ drop oi argv) @ [Null])"
  using assms build_vglrun_args_eq[OF assms, of cfg]
  by (simp add: malloc_def)

theorem vglrun_args_slots_witness:
  "length (malloc (9 + length example_argv - 8)) = 11 \<and>
   build_vglrun_args example_config example_argv 8 =
     Some [Str ''vglrun'', Str ''-c'', Str ''jpeg'', Str ''-d'', Str '':0'', Str ''-ld'',
           Str ''/usr/lib'', Str ''--'', Str ''app'', Str ''--flag'', Null]"
proof -
  have le: "8 \<le> length example_argv"
    by (simp add: example_argv_def)
  show ?thesis
    using vglrun_args_slots[OF le, of example_config]
    by (simp add: example_argv_def example_config_def)
qed

text \<open>
  C6: when option parsing leaves no trailing argument, the run mode becomes
  \<open>BB_RUN_STATUS\<close>, and whatever the daemon answers, the requests written to the socket are
  the single \<open>Status?\<close> once the log is open and the socket connected, and none otherwise:
  the availability request is never written. \<open>BUFFER_SIZE\<close> is large enough for the
  request.
\<close>

theorem no_command_sends_status_request:
  assumes "parse_command_line w argv = Parsed st cfg oi"
    and "length argv \<le> oi"
    and "8 \<le> BUFFER_SIZE w"
  shows "runmode (resolve_runmode st (length argv) oi) = BB_RUN_STATUS \<and>
     filter is_write (snd (main w argv)) =
       (if bb_init_log w = 0 \<and> 0 \<le> socketConnect_result w (socket_path cfg)
        then [SocketWrite ''Status?''] else [])"
proof -
  have app: "runmode st = BB_RUN_APP"
    using assms(1) by (rule parse_command_line_runmode)
  then have mode: "runmode (resolve_runmode st (length argv) oi) = BB_RUN_STATUS"
    using assms(2) by (simp add: resolve_runmode_def)
  have sent: "filter is_write (snd (main w argv)) = [SocketWrite ''Status?'']"
    if "bb_init_log w = 0" "0 \<le> socketConnect_result w (socket_path cfg)"
    using main_status[OF assms(1,2) that] status_request_bytes[OF assms(3)] by simp
  have nolog: "filter is_write (snd (main w argv)) = []" if "bb_init_log w \<noteq> 0"
    using assms(1) that by (simp add: main_def Let_def)
  have noconn: "filter is_write (snd (main w argv)) = []"
    if "bb_init_log w = 0" "socketConnect_result w (socket_path cfg) < 0"
    using assms(1) that
    by (simp add: main_def Let_def bb_log_def socketConnect_def emit_def set_socket_def
        bb_closelog_def)
  show ?thesis
    using mode sent nolog noconn by (cases "bb_init_log w = 0") auto
qed

theorem no_command_sends_status_request_witness:
  "runmode (resolve_runmode example_status (length [''optirun'', ''-v'']) 2) = BB_RUN_STATUS \<and>
   filter is_write (snd (main example_world [''optirun'', ''-v''])) = [SocketWrite ''Status?'']"
proof -
  have parse: "parse_command_line example_world [''optirun'', ''-v''] =
      Parsed (example_status\<lparr>verbosity := VERB_INFO\<rparr>) (read_configuration example_world) 2"
    by (simp add: parse_command_line_def example_world_def example_status_def
      initial_status_def parse_options.simps getopt_def is_option_element_def optstring_def Let_def)
  have none: "length [''optirun'', ''-v''] \<le> 2"
    by simp
  have size: "8 \<le> BUFFER_SIZE example_world"
    by (simp add: example_world_def)
  show ?thesis
    using no_command_sends_status_request[OF parse none size]
    by (simp add: example_world_def resolve_runmode_def example_status_def)
qed

text \<open>
  C5, as the code has it: the first non-empty reply is the last one read (exactly
  \<open>k + 1\<close> reads are made, whatever the daemon would send afterwards), and each branch of
  the switch closes the socket itself. The calls made after that read are, in order and
  with nothing left out: the log line of the reply, which precedes the switch, and then
  in the case \<open>N\<close> the close as the first call of the branch, the warning log line, and
  control goes to \<open>bb_run_exec\<close>; in the default case the error log line and right after
  it the close; in the case \<open>Y\<close> the log line, the companion if any, vglrun started and
  waited for, and only then the close. In the last two cases \<open>bb_closelog\<close> and
  \<open>bb_stop_all\<close> follow and main returns 0. The buffer logged holds the bytes received.
\<close>

theorem verdict_ends_loop_and_closes:
  assumes "parse_command_line w argv = Parsed st cfg oi"
    and "oi < length argv"
    and "bb_init_log w = 0"
    and "0 \<le> socketConnect_result w (socket_path cfg)"
    and "\<not> socketWrite_fails w"
    and "socketRead_results w = replicate k (Received []) @ Received payload # rest"
    and "payload \<noteq> []"
  shows "length (filter is_read (snd (main w argv))) = Suc k \<and>
     (\<exists>buf. take (length payload) buf = payload \<and>
        (if hd payload = CHR ''N'' then
           fst (main w argv) = Exec (drop oi argv) \<and>
           after_last_read (snd (main w argv)) =
             [Bb_log LOG_INFO ''Response: %*s\<newline>'' [PInt (int (length payload)), PBuf buf],
              SocketClose,
              Bb_log LOG_WARNING ''Running application normally.\<newline>'' []]
         else if hd payload = CHR ''Y'' then
           (\<exists>companion.
              (companion = [] \<or> companion = [Bb_run_fork [''vglclient'', ''-detach'']]) \<and>
              fst (main w argv) = Exited 0 \<and>
              after_last_read (snd (main w argv)) =
                [Bb_log LOG_INFO ''Response: %*s\<newline>'' [PInt (int (length payload)), PBuf buf],
                 Bb_log LOG_INFO ''Running application through vglrun.\<newline>'' []] @
                companion @
                [Bb_run_fork_wait
                   ([''vglrun'', ''-c'', vgl_compress cfg, ''-d'', x_display cfg, ''-ld'',
                     ld_path cfg, ''--''] @ drop oi argv),
                 SocketClose, Bb_closelog, Bb_stop_all])
         else
           fst (main w argv) = Exited 0 \<and>
           after_last_read (snd (main w argv)) =
             [Bb_log LOG_INFO ''Response: %*s\<newline>'' [PInt (int (length payload)), PBuf buf],
              Bb_log LOG_ERR ''Problem: %*s\<newline>'' [PInt (int (length payload)), PBuf buf],
              SocketClose, Bb_closelog, Bb_stop_all]))"
proof -
  let ?buf = "overwrite payload (buffer (requested w st cfg ''Checking availability...''))"
  have buf: "take (length payload) ?buf = payload"
    by (rule take_overwrite)
  consider (N) "hd payload = CHR ''N''" | (Y) "hd payload = CHR ''Y''"
    | (other) "hd payload \<noteq> CHR ''Y''" "hd payload \<noteq> CHR ''N''"
    by blast
  then show ?thesis
  proof cases
    case N
    have "after_last_read (snd (main w argv)) =
        [Bb_log LOG_INFO ''Response: %*s\<newline>'' [PInt (int (length payload)), PBuf ?buf],
         SocketClose,
         Bb_log LOG_WARNING ''Running application normally.\<newline>'' []]"
      unfolding run_N[OF assms N] snd_conv
      by (rule after_last_read_run) auto
    moreover have "fst (main w argv) = Exec (drop oi argv)"
      by (simp add: run_N[OF assms N])
    moreover have "length (filter is_read (snd (main w argv))) = Suc k"
      by (simp add: run_N[OF assms N] reads_of_request)
    ultimately show ?thesis
      using N buf by auto
  next
    case Y
    let ?wrapper = "Bb_run_fork_wait
        ([''vglrun'', ''-c'', vgl_compress cfg, ''-d'', x_display cfg, ''-ld'', ld_path cfg, ''--'']
         @ drop oi argv)"
    let ?companion = "if strncmp (vgl_compress cfg) ''proxy'' (BUFFER_SIZE w) \<noteq> 0
       then [Bb_run_fork [''vglclient'', ''-detach'']] else []"
    have tr: "snd (main w argv) =
        trace (requested w st cfg ''Checking availability...'') @
        replicate k (SocketRead 0) @
        SocketRead (int (length payload)) #
        ([Bb_log LOG_INFO ''Response: %*s\<newline>'' [PInt (int (length payload)), PBuf ?buf],
          Bb_log LOG_INFO ''Running application through vglrun.\<newline>'' []] @
         ?companion @ [?wrapper, SocketClose, Bb_closelog, Bb_stop_all])"
      by (simp add: run_Y[OF assms Y])
    have after: "after_last_read (snd (main w argv)) =
        [Bb_log LOG_INFO ''Response: %*s\<newline>'' [PInt (int (length payload)), PBuf ?buf],
         Bb_log LOG_INFO ''Running application through vglrun.\<newline>'' []] @
        ?companion @ [?wrapper, SocketClose, Bb_closelog, Bb_stop_all]"
      unfolding tr
      by (rule after_last_read_run) (auto split: if_splits)
    have comp: "?companion = [] \<or> ?companion = [Bb_run_fork [''vglclient'', ''-detach'']]"
      by simp
    have exit: "fst (main w argv) = Exited 0"
      by (simp add: run_Y[OF assms Y])
    have inner: "\<exists>companion.
        (companion = [] \<or> companion = [Bb_run_fork [''vglclient'', ''-detach'']]) \<and>
        fst (main w argv) = Exited 0 \<and>
        after_last_read (snd (main w argv)) =
          [Bb_log LOG_INFO ''Response: %*s\<newline>'' [PInt (int (length payload)), PBuf ?buf],
           Bb_log LOG_INFO ''Running application through vglrun.\<newline>'' []] @
          companion @ [?wrapper, SocketClose, Bb_closelog, Bb_stop_all]"
      using comp exit after by blast
    have reads: "length (filter is_read (snd (main w argv))) = Suc k"
      by (simp add: run_Y[OF assms Y] reads_of_request)
    have "\<exists>buf. take (length payload) buf = payload \<and>
        (\<exists>companion.
          (companion = [] \<or> companion = [Bb_run_fork [''vglclient'', ''-detach'']]) \<and>
          fst (main w argv) = Exited 0 \<and>
          after_last_read (snd (main w argv)) =
            [Bb_log LOG_INFO ''Response: %*s\<newline>'' [PInt (int (length payload)), PBuf buf],
             Bb_log LOG_INFO ''Running application through vglrun.\<newline>'' []] @
            companion @ [?wrapper, SocketClose, Bb_closelog, Bb_stop_all])"
      using buf inner by blast
    then show ?thesis
      using Y reads by simp
  next
    case other
    have "after_last_read (snd (main w argv)) =
        [Bb_log LOG_INFO ''Response: %*s\<newline>'' [PInt (int (length payload)), PBuf ?buf],
         Bb_log LOG_ERR ''Problem: %*s\<newline>'' [PInt (int (length payload)), PBuf ?buf],
         SocketClose, Bb_closelog, Bb_stop_all]"
      unfolding run_other[OF assms other] snd_conv
      by (rule after_last_read_run) auto
    moreover have "fst (main w argv) = Exited 0"
      by (simp add: run_other[OF assms other])
    moreover have "length (filter is_read (snd (main w argv))) = Suc k"
      by (simp add: run_other[OF assms other] reads_of_request)
    ultimately show ?thesis
      using other buf by auto
  qed
qed

theorem verdict_ends_loop_and_closes_witness:
  "length (filter is_read
     (snd (main (example_world\<lparr>socketRead_results := [Received [], Received ''Yes'', Received ''No'']\<rparr>)
             example_argv))) = 2 \<and>
   (\<exists>buf companion.
      take (length ''Yes'') buf = ''Yes'' \<and>
      (companion = [] \<or> companion = [Bb_run_fork [''vglclient'', ''-detach'']]) \<and>
      after_last_read
        (snd (main (example_world\<lparr>socketRead_results := [Received [], Received ''Yes'', Received ''No'']\<rparr>)
                example_argv)) =
        [Bb_log LOG_INFO ''Response: %*s\<newline>'' [PInt (int (length ''Yes'')), PBuf buf],
         Bb_log LOG_INFO ''Running application through vglrun.\<newline>'' []] @
        companion @
        [Bb_run_fork_wait [''vglrun'', ''-c'', ''jpeg'', ''-d'', '':0'', ''-ld'', ''/usr/lib'', ''--'',
                           ''app'', ''--flag''],
         SocketClose, Bb_closelog, Bb_stop_all]) \<and>
   fst (main (example_world\<lparr>socketRead_results := [Received ''No'', Received ''Yes'']\<rparr>) example_argv) =
     Exec [''app'', ''--flag''] \<and>
   (\<exists>buf.
      take (length ''No'') buf = ''No'' \<and>
      after_last_read
        (snd (main (example_world\<lparr>socketRead_results := [Received ''No'', Received ''Yes'']\<rparr>)
                example_argv)) =
        [Bb_log LOG_INFO ''Response: %*s\<newline>'' [PInt (int (length ''No'')), PBuf buf],
         SocketClose,
         Bb_log LOG_WARNING ''Running application normally.\<newline>'' []]) \<and>
   (\<exists>buf.
      take (length ''Error'') buf = ''Error'' \<and>
      after_last_read
        (snd (main (example_world\<lparr>socketRead_results := [Received ''Error'', Received ''Yes'']\<rparr>)
                example_argv)) =
        [Bb_log LOG_INFO ''Response: %*s\<newline>'' [PInt (int (length ''Error'')), PBuf buf],
         Bb_log LOG_ERR ''Problem: %*s\<newline>'' [PInt (int (length ''Error'')), PBuf buf],
         SocketClose, Bb_closelog, Bb_stop_all])"
proof -
  let ?wy = "example_world\<lparr>socketRead_results := [Received [], Received ''Yes'', Received ''No'']\<rparr>"
  let ?wn = "example_world\<lparr>socketRead_results := [Received ''No'', Received ''Yes'']\<rparr>"
  let ?wu = "example_world\<lparr>socketRead_results := [Received ''Error'', Received ''Yes'']\<rparr>"
  have parse: "parse_command_line (example_world\<lparr>socketRead_results := rs\<rparr>) example_argv =
      Parsed example_status example_config 8" for rs
    by (rule example_parse)
  have args: "8 < length example_argv"
    by (simp add: example_argv_def)
  have log: "bb_init_log (example_world\<lparr>socketRead_results := rs\<rparr>) = 0" for rs
    by (simp add: example_world_def)
  have conn: "0 \<le> socketConnect_result (example_world\<lparr>socketRead_results := rs\<rparr>)
      (socket_path example_config)" for rs
    by (simp add: example_world_def)
  have wr: "\<not> socketWrite_fails (example_world\<lparr>socketRead_results := rs\<rparr>)" for rs
    by (simp add: example_world_def)
  have ry: "socketRead_results ?wy = replicate 1 (Received []) @ Received ''Yes'' # [Received ''No'']"
    by simp
  have rn: "socketRead_results ?wn = replicate 0 (Received []) @ Received ''No'' # [Received ''Yes'']"
    by simp
  have ru: "socketRead_results ?wu = replicate 0 (Received []) @ Received ''Error'' # [Received ''Yes'']"
    by simp
  have y: "''Yes'' \<noteq> []" and n: "''No'' \<noteq> []" and u: "''Error'' \<noteq> []"
    by simp_all
  have hy: "hd ''Yes'' = CHR ''Y''" "hd ''Yes'' \<noteq> CHR ''N''"
    and hn: "hd ''No'' = CHR ''N''"
    and hu: "hd ''Error'' \<noteq> CHR ''N''" "hd ''Error'' \<noteq> CHR ''Y''"
    by simp_all
  note ty = verdict_ends_loop_and_closes[OF parse args log conn wr ry y, unfolded if_not_P[OF hy(2)] if_P[OF hy(1)]]
  note tn = verdict_ends_loop_and_closes[OF parse args log conn wr rn n, unfolded if_P[OF hn]]
  note tu = verdict_ends_loop_and_closes[OF parse args log conn wr ru u, unfolded if_not_P[OF hu(1)] if_not_P[OF hu(2)]]
  have cfg: "vgl_compress example_config = ''jpeg''" "x_display example_config = '':0''"
    "ld_path example_config = ''/usr/lib''"
    by (simp_all add: example_config_def)
  have rest: "drop 8 example_argv = [''app'', ''--flag'']"
    by (simp add: example_argv_def)
  from ty have "length (filter is_read (snd (main ?wy example_argv))) = 2"
    by simp
  moreover from ty have "\<exists>buf companion.
      take (length ''Yes'') buf = ''Yes'' \<and>
      (companion = [] \<or> companion = [Bb_run_fork [''vglclient'', ''-detach'']]) \<and>
      after_last_read (snd (main ?wy example_argv)) =
        [Bb_log LOG_INFO ''Response: %*s\<newline>'' [PInt (int (length ''Yes'')), PBuf buf],
         Bb_log LOG_INFO ''Running application through vglrun.\<newline>'' []] @
        companion @
        [Bb_run_fork_wait [''vglrun'', ''-c'', ''jpeg'', ''-d'', '':0'', ''-ld'', ''/usr/lib'', ''--'',
                           ''app'', ''--flag''],
         SocketClose, Bb_closelog, Bb_stop_all]"
    unfolding cfg rest by (elim conjE exE) (simp only: append.simps, blast)
  moreover from tn have "fst (main ?wn example_argv) = Exec [''app'', ''--flag'']"
    unfolding rest by blast
  moreover from tn have "\<exists>buf.
      take (length ''No'') buf = ''No'' \<and>
      after_last_read (snd (main ?wn example_argv)) =
        [Bb_log LOG_INFO ''Response: %*s\<newline>'' [PInt (int (length ''No'')), PBuf buf],
         SocketClose,
         Bb_log LOG_WARNING ''Running application normally.\<newline>'' []]"
    by blast
  moreover from tu have "\<exists>buf.
      take (length ''Error'') buf = ''Error'' \<and>
      after_last_read (snd (main ?wu example_argv)) =
        [Bb_log LOG_INFO ''Response: %*s\<newline>'' [PInt (int (length ''Error'')), PBuf buf],
         Bb_log LOG_ERR ''Problem: %*s\<newline>'' [PInt (int (length ''Error'')), PBuf buf],
         SocketClose, Bb_closelog, Bb_stop_all]"
    by blast
  ultimately show ?thesis
    by blast
qed

text \<open>
  In the concrete run (the daemon answers \<open>Yes\<close>, the method is \<open>jpeg\<close>), the socket is not
  closed right after the dispatch on the reply: both processes are started, and vglrun has
  been waited for, before \<open>socketClose\<close> is called.
\<close>

theorem close_after_wrapper_counterexample:
  "calls_after_reply (snd (main example_world example_argv)) =
     [Bb_run_fork [''vglclient'', ''-detach''],
      Bb_run_fork_wait [''vglrun'', ''-c'', ''jpeg'', ''-d'', '':0'', ''-ld'', ''/usr/lib'', ''--'',
                        ''app'', ''--flag''],
      SocketClose, Bb_closelog, Bb_stop_all]"
  by code_simp

end
